theory Spec2Isabelle
  imports Complex_Main
begin

section \<open>The 1DOF turbine simulator of WTC\_toolbox/sim.py\<close>

text \<open>
  The development embeds \<^verbatim>\<open>Sim.__init__\<close> and \<^verbatim>\<open>Sim.sim_ws_series\<close> of
  \<^verbatim>\<open>src/WTC_toolbox/sim.py\<close>.

  Numbers. The source computes on numpy float64 arrays. Here a number is a \<^typ>\<open>real\<close>:
  rounding and overflow are not modelled, and every formula keeps the source's operations
  in the source's order. The one division of the source whose divisor is an input sample,
  the tip-speed ratio of line 93, is modelled with numpy's non-finite results written out
  (\<open>np_div\<close> below), since numpy does not raise there. The time array is a list of reals:
  an integer-typed time array, for which \<^verbatim>\<open>np.ones_like\<close> would give integer series,
  is outside the model.

  Effects. The simulator calls three collaborators that are not part of the file: the
  aerodynamic evaluator \<^verbatim>\<open>turbine.cc_rotor.evaluate\<close>, the interpolated surface
  \<^verbatim>\<open>turbine.Cq.interp_surface\<close> and the controller
  \<^verbatim>\<open>controller_int.call_controller\<close>. Each is a parameter of the model that returns
  \<open>None\<close> when the call raises. The controller keeps memory between calls, so it takes and
  returns a value of a type \<open>'c\<close>. Every call made is appended to a log, tagged with the loop
  index at which it is made (the call of the set-up test has tag 0, an index at which the
  loop itself does nothing). Plotting and printing are left out.
\<close>

subsection \<open>Constants and numbers\<close>

definition rpm2RadSec :: real where
  "rpm2RadSec = 2 * pi / 60"

text \<open>The result of a numpy division of two finite numbers.\<close>

datatype npfloat = Fin real | PInf | NInf | NaN

definition np_div :: "real \<Rightarrow> real \<Rightarrow> npfloat" where
  "np_div x y =
     (if y \<noteq> 0 then Fin (x / y)
      else if 0 < x then PInf
      else if x < 0 then NInf
      else NaN)"

subsection \<open>Data\<close>

text \<open>
  Modelled from the spec: the turbine class (\<^verbatim>\<open>WTC_toolbox/turbine.py\<close>) is not
  among the sources. The fields \<open>TurbineName\<close>, \<open>RotorRad\<close>, \<open>Ng\<close>, \<open>rho\<close>, \<open>J\<close>, the
  surface \<open>Cq\<close> and the evaluator \<open>cc_rotor\<close> are the attributes that sim.py reads; the
  two efficiencies are the ones that the specification's TurbineParameters lists.
  \<open>Cq_interp_surface pitch tsr\<close> and \<open>cc_rotor_evaluate ws rpm pitch\<close> give the torque
  coefficient, or \<open>None\<close> when the call raises (a turbine without \<open>cc_rotor\<close> is one whose
  evaluator always raises).
\<close>

record turbine =
  TurbineName :: string
  RotorRad :: real
  Ng :: real
  rho :: real
  J :: real
  GBoxEff :: real
  GenEff :: real
  Cq_interp_surface :: "real \<Rightarrow> npfloat \<Rightarrow> real option"
  cc_rotor_evaluate :: "real \<Rightarrow> real \<Rightarrow> real \<Rightarrow> real option"

text \<open>
  The arguments of \<^verbatim>\<open>call_controller(t, dt, pitch, gen_speed, rot_speed, ws)\<close>, and the
  controller: from its memory and the arguments to the pair (generator torque, blade
  pitch) and the new memory, or \<open>None\<close> when it raises.
\<close>

type_synonym ctrl_args = "real \<times> real \<times> real \<times> real \<times> real \<times> real"

type_synonym 'c controller = "'c \<Rightarrow> ctrl_args \<Rightarrow> ((real \<times> real) \<times> 'c) option"

record 'c Sim =
  turbine :: turbine
  controller_int :: "'c controller"
  gb_eff :: real
  gen_eff :: real

datatype call =
    Evaluate real real real
  | InterpSurface real npfloat
  | CallController ctrl_args

datatype error = IndexError | EvaluateError | InterpError | ControllerError

record 'c sim_state =
  bld_pitch :: "real list"
  rot_speed :: "real list"
  gen_speed :: "real list"
  aero_torque :: "real list"
  gen_torque :: "real list"
  gen_power :: "real list"
  ctrl_mem :: 'c
  calls :: "(nat \<times> call) list"

text \<open>A run ends with the saved series, or with an exception and the calls made so far.\<close>

type_synonym 'c outcome = "(error \<times> (nat \<times> call) list) + 'c sim_state"

subsection \<open>The simulator\<close>

definition Sim_init :: "turbine \<Rightarrow> 'c controller \<Rightarrow> 'c Sim" where
  "Sim_init trb ctl =
     \<lparr>turbine = trb, controller_int = ctl, gb_eff = 0.95, gen_eff = 0.95\<rparr>"

text \<open>\<^verbatim>\<open>np.ones_like(t_array) * v\<close>\<close>

definition ones_like_times :: "real list \<Rightarrow> real \<Rightarrow> real list" where
  "ones_like_times t_array v = map (\<lambda>_. 1 * v) t_array"

text \<open>The output arrays as declared in lines 67 to 72.\<close>

definition declare_arrays :: "'c Sim \<Rightarrow> 'c \<Rightarrow> real list \<Rightarrow> real \<Rightarrow> real \<Rightarrow> 'c sim_state" where
  "declare_arrays self c0 t_array rotor_rpm_init init_pitch =
     \<lparr>bld_pitch = ones_like_times t_array init_pitch,
      rot_speed = map (\<lambda>x. x * rpm2RadSec) (ones_like_times t_array rotor_rpm_init),
      gen_speed = map (\<lambda>x. x * Ng (turbine self)) (ones_like_times t_array rotor_rpm_init),
      aero_torque = ones_like_times t_array 1000.0,
      gen_torque = map (\<lambda>_. 1) t_array,
      gen_power = ones_like_times t_array 0.0,
      ctrl_mem = c0,
      calls = []\<rparr>"

text \<open>
  The test of lines 76 to 83. Everything inside the \<^verbatim>\<open>try\<close> is caught, also the
  IndexError of \<^verbatim>\<open>ws_array[1]\<close>, in which case the evaluator is not called.
\<close>

definition test_cc_blade :: "'c Sim \<Rightarrow> real list \<Rightarrow> 'c sim_state \<Rightarrow> bool \<times> (nat \<times> call) list" where
  "test_cc_blade self ws_array st =
     (if length ws_array < 2 then (True, [])
      else
        let rpm = rot_speed st ! 0 / rpm2RadSec;
            pitch = bld_pitch st ! 0;
            made = [(0, Evaluate (ws_array ! 1) rpm pitch)]
        in case cc_rotor_evaluate (turbine self) (ws_array ! 1) rpm pitch of
             None \<Rightarrow> (True, made)
           | Some _ \<Rightarrow> (False, made))"

text \<open>Lines 92 to 99: the query made for the torque coefficient and its result.\<close>

definition load_cq :: "'c Sim \<Rightarrow> bool \<Rightarrow> nat \<Rightarrow> real \<Rightarrow> 'c sim_state \<Rightarrow> call \<times> real option" where
  "load_cq self use_interpolated i ws st =
     (if use_interpolated then
        let tsr = np_div (rot_speed st ! (i - 1) * RotorRad (turbine self)) ws
        in (InterpSurface (bld_pitch st ! (i - 1)) tsr,
            Cq_interp_surface (turbine self) (bld_pitch st ! (i - 1)) tsr)
      else
        (Evaluate ws (rot_speed st ! (i - 1) / rpm2RadSec) (bld_pitch st ! (i - 1)),
         cc_rotor_evaluate (turbine self) ws (rot_speed st ! (i - 1) / rpm2RadSec)
           (bld_pitch st ! (i - 1))))"

text \<open>The body of the loop for an index \<open>i\<close> other than 0 (lines 89 to 111).\<close>

definition sim_step ::
  "'c Sim \<Rightarrow> real \<Rightarrow> real list \<Rightarrow> bool \<Rightarrow> nat \<Rightarrow> real \<Rightarrow> 'c sim_state \<Rightarrow> 'c outcome" where
  "sim_step self dt ws_array use_interpolated i t st =
     (if length ws_array \<le> i then Inl (IndexError, calls st)
      else
        let ws = ws_array ! i;
            R = RotorRad (turbine self);
            (query, res) = load_cq self use_interpolated i ws st;
            calls1 = calls st @ [(i, query)]
        in case res of
             None \<Rightarrow> Inl (if use_interpolated then InterpError else EvaluateError, calls1)
           | Some cq \<Rightarrow>
               let aero_torque1 = (aero_torque st)
                     [i := 0.5 * rho (turbine self) * (pi * R\<^sup>2) * cq * R * ws\<^sup>2];
                   rot_speed1 = (rot_speed st)
                     [i := rot_speed st ! (i - 1) + (dt / J (turbine self)) *
                            (aero_torque1 ! i * gb_eff self
                             - Ng (turbine self) * gen_torque st ! (i - 1))];
                   gen_speed1 = (gen_speed st) [i := rot_speed1 ! i * Ng (turbine self)];
                   args = (t, dt, bld_pitch st ! (i - 1), gen_speed1 ! i, rot_speed1 ! i, ws);
                   calls2 = calls1 @ [(i, CallController args)]
               in (case controller_int self (ctrl_mem st) args of
                    None \<Rightarrow> Inl (ControllerError, calls2)
                  | Some ((trq, pit), c1) \<Rightarrow>
                      let gen_torque1 = (gen_torque st) [i := trq];
                          bld_pitch1 = (bld_pitch st) [i := pit];
                          gen_power1 = (gen_power st)
                            [i := gen_speed1 ! i * pi / 30.0 * gen_torque1 ! i * gen_eff self]
                      in Inr \<lparr>bld_pitch = bld_pitch1, rot_speed = rot_speed1,
                              gen_speed = gen_speed1, aero_torque = aero_torque1,
                              gen_torque = gen_torque1, gen_power = gen_power1,
                              ctrl_mem = c1, calls = calls2\<rparr>))"

text \<open>The loop of line 86 over \<^verbatim>\<open>enumerate(t_array)\<close>; index 0 is skipped.\<close>

fun sim_loop ::
  "'c Sim \<Rightarrow> real \<Rightarrow> real list \<Rightarrow> bool \<Rightarrow> (nat \<times> real) list \<Rightarrow> 'c sim_state \<Rightarrow> 'c outcome" where
  "sim_loop self dt ws_array use_interpolated [] st = Inr st"
| "sim_loop self dt ws_array use_interpolated ((i, t) # rest) st =
     (if i = 0 then sim_loop self dt ws_array use_interpolated rest st
      else
        case sim_step self dt ws_array use_interpolated i t st of
          Inl e \<Rightarrow> Inl e
        | Inr st1 \<Rightarrow> sim_loop self dt ws_array use_interpolated rest st1)"

text \<open>
  \<^verbatim>\<open>sim_ws_series\<close>: \<open>c0\<close> is the memory of the controller when the run starts.
  \<^verbatim>\<open>t_array[1]\<close> raises on an array shorter than two.
\<close>

definition sim_ws_series ::
  "'c Sim \<Rightarrow> 'c \<Rightarrow> real list \<Rightarrow> real list \<Rightarrow> real \<Rightarrow> real \<Rightarrow> 'c outcome" where
  "sim_ws_series self c0 t_array ws_array rotor_rpm_init init_pitch =
     (if length t_array < 2 then Inl (IndexError, [])
      else
        let dt = t_array ! 1 - t_array ! 0;
            st0 = declare_arrays self c0 t_array rotor_rpm_init init_pitch;
            (use_interpolated, made) = test_cc_blade self ws_array st0
        in sim_loop self dt ws_array use_interpolated (enumerate 0 t_array)
             (st0\<lparr>calls := made\<rparr>))"

text \<open>The calls of a run, whether it ended with an exception or not.\<close>

definition trace_of :: "'c outcome \<Rightarrow> (nat \<times> call) list" where
  "trace_of r = (case r of Inl (e, made) \<Rightarrow> made | Inr st \<Rightarrow> calls st)"

subsection \<open>Predicates for the proofs\<close>

text \<open>
  \<open>series_len\<close>: all six series have the given length. \<open>same_below\<close>: two states
  agree on every series below an index. \<open>step_at\<close>: what the body of the loop has
  established at an index, read off a later state. \<open>use_interpolated_of\<close>: the flag
  \<^verbatim>\<open>use_interpolated\<close> that the test before the loop sets.
\<close>

definition series_len :: "nat \<Rightarrow> 'c sim_state \<Rightarrow> bool" where
  "series_len n st \<longleftrightarrow>
     length (bld_pitch st) = n \<and> length (rot_speed st) = n \<and> length (gen_speed st) = n \<and>
     length (aero_torque st) = n \<and> length (gen_torque st) = n \<and> length (gen_power st) = n"

definition same_below :: "nat \<Rightarrow> 'c sim_state \<Rightarrow> 'c sim_state \<Rightarrow> bool" where
  "same_below k st st1 \<longleftrightarrow>
     (\<forall>j<k. bld_pitch st1 ! j = bld_pitch st ! j \<and> rot_speed st1 ! j = rot_speed st ! j \<and>
            gen_speed st1 ! j = gen_speed st ! j \<and> aero_torque st1 ! j = aero_torque st ! j \<and>
            gen_torque st1 ! j = gen_torque st ! j \<and> gen_power st1 ! j = gen_power st ! j)"

definition step_at ::
  "'c Sim \<Rightarrow> real \<Rightarrow> real list \<Rightarrow> bool \<Rightarrow> nat \<Rightarrow> real \<Rightarrow> 'c sim_state \<Rightarrow> bool" where
  "step_at self dt ws_array ui i t s \<longleftrightarrow>
     i < length ws_array \<and>
     (\<exists>cq. snd (load_cq self ui i (ws_array ! i) s) = Some cq \<and>
        aero_torque s ! i =
          0.5 * rho (turbine self) * (pi * (RotorRad (turbine self))\<^sup>2) * cq
            * RotorRad (turbine self) * (ws_array ! i)\<^sup>2) \<and>
     rot_speed s ! i =
       rot_speed s ! (i - 1) + (dt / J (turbine self)) *
         (aero_torque s ! i * gb_eff self - Ng (turbine self) * gen_torque s ! (i - 1)) \<and>
     gen_speed s ! i = rot_speed s ! i * Ng (turbine self) \<and>
     (\<exists>c c1. controller_int self c
          (t, dt, bld_pitch s ! (i - 1), gen_speed s ! i, rot_speed s ! i, ws_array ! i)
        = Some ((gen_torque s ! i, bld_pitch s ! i), c1)) \<and>
     gen_power s ! i = gen_speed s ! i * pi / 30 * gen_torque s ! i * gen_eff self \<and>
     filter (\<lambda>x. fst x = i) (calls s) =
       [(i, fst (load_cq self ui i (ws_array ! i) s)),
        (i, CallController
              (t, dt, bld_pitch s ! (i - 1), gen_speed s ! i, rot_speed s ! i, ws_array ! i))]"

definition use_interpolated_of :: "'c Sim \<Rightarrow> 'c \<Rightarrow> real list \<Rightarrow> real list \<Rightarrow> real \<Rightarrow> real \<Rightarrow> bool" where
  "use_interpolated_of self c0 t_array ws_array rotor_rpm_init init_pitch =
     fst (test_cc_blade self ws_array (declare_arrays self c0 t_array rotor_rpm_init init_pitch))"

fun is_Evaluate :: "call \<Rightarrow> bool" where
  "is_Evaluate (Evaluate ws rpm pitch) = True"
| "is_Evaluate (InterpSurface pitch tsr) = False"
| "is_Evaluate (CallController args) = False"

fun finite_np :: "npfloat \<Rightarrow> bool" where
  "finite_np (Fin q) = True"
| "finite_np PInf = False"
| "finite_np NInf = False"
| "finite_np NaN = False"

subsection \<open>An example run\<close>

text \<open>
  A turbine without evaluator (the call always raises) whose surface gives the
  coefficient 0.1 everywhere, and a controller that always commands the torque 2 and the
  pitch 0.5. \<open>demo_final\<close> is the state after the run over the times 0, 1 with a wind
  of 10 at both, from 10 rpm and pitch 0; \<open>demo_zero_final\<close> the state when the second
  wind sample is 0.
\<close>

definition demo_turbine :: turbine where
  "demo_turbine =
     \<lparr>TurbineName = ''demo'', RotorRad = 1, Ng = 97, rho = 2, J = 100,
      GBoxEff = 1, GenEff = 1,
      Cq_interp_surface = (\<lambda>pitch tsr. Some 0.1),
      cc_rotor_evaluate = (\<lambda>ws rpm pitch. None)\<rparr>"

definition demo_controller :: "unit controller" where
  "demo_controller c args = Some ((2, 0.5), c)"

definition demo_sim :: "unit Sim" where
  "demo_sim = Sim_init demo_turbine demo_controller"

definition demo_final :: "unit sim_state" where
  "demo_final =
     \<lparr>bld_pitch = [0, 0.5],
      rot_speed = [pi / 3, pi / 3 + (1 / 100) * (10 * pi * 0.95 - 97 * 1)],
      gen_speed = [970, (pi / 3 + (1 / 100) * (10 * pi * 0.95 - 97 * 1)) * 97],
      aero_torque = [1000, 10 * pi],
      gen_torque = [1, 2],
      gen_power =
        [0, (pi / 3 + (1 / 100) * (10 * pi * 0.95 - 97 * 1)) * 97 * pi / 30 * 2 * 0.95],
      ctrl_mem = (),
      calls =
        [(0, Evaluate 10 10 0),
         (1, InterpSurface 0 (Fin (pi / 30))),
         (1, CallController
               (1, 1, 0, (pi / 3 + (1 / 100) * (10 * pi * 0.95 - 97 * 1)) * 97,
                pi / 3 + (1 / 100) * (10 * pi * 0.95 - 97 * 1), 10))]\<rparr>"

definition demo_zero_final :: "unit sim_state" where
  "demo_zero_final =
     \<lparr>bld_pitch = [0, 0.5],
      rot_speed = [pi / 3, pi / 3 + (1 / 100) * (0 * 0.95 - 97 * 1)],
      gen_speed = [970, (pi / 3 + (1 / 100) * (0 * 0.95 - 97 * 1)) * 97],
      aero_torque = [1000, 0],
      gen_torque = [1, 2],
      gen_power = [0, (pi / 3 + (1 / 100) * (0 * 0.95 - 97 * 1)) * 97 * pi / 30 * 2 * 0.95],
      ctrl_mem = (),
      calls =
        [(0, Evaluate 0 10 0),
         (1, InterpSurface 0 PInf),
         (1, CallController
               (1, 1, 0, (pi / 3 + (1 / 100) * (0 * 0.95 - 97 * 1)) * 97,
                pi / 3 + (1 / 100) * (0 * 0.95 - 97 * 1), 0))]\<rparr>"

section \<open>Properties of a step and of the loop\<close>

lemma sim_step_InrE:
  assumes "sim_step self dt ws_array ui i t st = Inr st1"
  obtains cq trq pit c1 where
    "i < length ws_array"
    "snd (load_cq self ui i (ws_array ! i) st) = Some cq"
    "controller_int self (ctrl_mem st)
       (t, dt, bld_pitch st ! (i - 1), gen_speed st1 ! i, rot_speed st1 ! i, ws_array ! i)
     = Some ((trq, pit), c1)"
    "aero_torque st1 = (aero_torque st)
       [i := 0.5 * rho (turbine self) * (pi * (RotorRad (turbine self))\<^sup>2) * cq
             * RotorRad (turbine self) * (ws_array ! i)\<^sup>2]"
    "rot_speed st1 = (rot_speed st)
       [i := rot_speed st ! (i - 1) + (dt / J (turbine self)) *
              (aero_torque st1 ! i * gb_eff self - Ng (turbine self) * gen_torque st ! (i - 1))]"
    "gen_speed st1 = (gen_speed st) [i := rot_speed st1 ! i * Ng (turbine self)]"
    "gen_torque st1 = (gen_torque st) [i := trq]"
    "bld_pitch st1 = (bld_pitch st) [i := pit]"
    "gen_power st1 = (gen_power st)
       [i := gen_speed st1 ! i * pi / 30 * gen_torque st1 ! i * gen_eff self]"
    "ctrl_mem st1 = c1"
    "calls st1 = calls st @
       [(i, fst (load_cq self ui i (ws_array ! i) st)),
        (i, CallController (t, dt, bld_pitch st ! (i - 1), gen_speed st1 ! i,
              rot_speed st1 ! i, ws_array ! i))]"
  using assms
  unfolding sim_step_def Let_def
  by (auto split: if_splits option.splits prod.splits)

lemma sim_step_trace:
  "\<exists>extra. trace_of (sim_step self dt ws_array ui i t st) = calls st @ extra \<and>
     (\<forall>x\<in>set extra. fst x = i \<and> (ui \<longrightarrow> \<not> is_Evaluate (snd x)))"
  unfolding sim_step_def Let_def trace_of_def
  by (cases ui) (auto simp: load_cq_def Let_def split: option.splits prod.splits)

lemma sim_step_series_len:
  assumes "sim_step self dt ws_array ui i t st = Inr st1" and "series_len n st"
  shows "series_len n st1"
  using assms(1)
proof (rule sim_step_InrE)
  fix cq trq pit c1
  assume "aero_torque st1 = (aero_torque st)
       [i := 0.5 * rho (turbine self) * (pi * (RotorRad (turbine self))\<^sup>2) * cq
             * RotorRad (turbine self) * (ws_array ! i)\<^sup>2]"
    "rot_speed st1 = (rot_speed st)
       [i := rot_speed st ! (i - 1) + (dt / J (turbine self)) *
              (aero_torque st1 ! i * gb_eff self - Ng (turbine self) * gen_torque st ! (i - 1))]"
    "gen_speed st1 = (gen_speed st) [i := rot_speed st1 ! i * Ng (turbine self)]"
    "gen_torque st1 = (gen_torque st) [i := trq]"
    "bld_pitch st1 = (bld_pitch st) [i := pit]"
    "gen_power st1 = (gen_power st)
       [i := gen_speed st1 ! i * pi / 30 * gen_torque st1 ! i * gen_eff self]"
  with assms(2) show ?thesis by (simp add: series_len_def)
qed

lemma sim_step_same_below:
  assumes "sim_step self dt ws_array ui i t st = Inr st1"
  shows "same_below i st st1"
  using assms by (elim sim_step_InrE) (simp add: same_below_def)

lemma same_below_refl: "same_below k st st"
  by (simp add: same_below_def)

lemma sim_loop_series_len:
  "sim_loop self dt ws_array ui (enumerate k ts) st = Inr st2 \<Longrightarrow> series_len n st
   \<Longrightarrow> series_len n st2"
proof (induction ts arbitrary: k st)
  case Nil
  then show ?case by simp
next
  case (Cons t ts)
  show ?case
  proof (cases "k = 0")
    case True
    with Cons.prems Cons.IH [of "Suc k" st] show ?thesis by simp
  next
    case False
    with Cons.prems obtain st1 where
      s: "sim_step self dt ws_array ui k t st = Inr st1" and
      l: "sim_loop self dt ws_array ui (enumerate (Suc k) ts) st1 = Inr st2"
      by (auto split: sum.splits)
    from s Cons.prems(2) have "series_len n st1" by (rule sim_step_series_len)
    with l show ?thesis by (rule Cons.IH)
  qed
qed

lemma sim_loop_same_below:
  "sim_loop self dt ws_array ui (enumerate k ts) st = Inr st2 \<Longrightarrow> same_below (max 1 k) st st2"
proof (induction ts arbitrary: k st)
  case Nil
  then show ?case by (simp add: same_below_refl)
next
  case (Cons t ts)
  show ?case
  proof (cases "k = 0")
    case True
    with Cons.prems Cons.IH [of "Suc k" st] show ?thesis by simp
  next
    case False
    with Cons.prems obtain st1 where
      s: "sim_step self dt ws_array ui k t st = Inr st1" and
      l: "sim_loop self dt ws_array ui (enumerate (Suc k) ts) st1 = Inr st2"
      by (auto split: sum.splits)
    from s have a: "same_below k st st1" by (rule sim_step_same_below)
    from l have b: "same_below (max 1 (Suc k)) st1 st2" by (rule Cons.IH)
    from a b False show ?thesis by (simp add: same_below_def)
  qed
qed

lemma sim_loop_trace:
  "\<exists>extra. trace_of (sim_loop self dt ws_array ui (enumerate k ts) st) = calls st @ extra \<and>
     (\<forall>x\<in>set extra. max 1 k \<le> fst x \<and> fst x < k + length ts \<and>
        (ui \<longrightarrow> \<not> is_Evaluate (snd x)))"
proof (induction ts arbitrary: k st)
  case Nil
  then show ?case by (simp add: trace_of_def)
next
  case (Cons t ts)
  show ?case
  proof (cases "k = 0")
    case True
    with Cons.IH [of "Suc k" st] show ?thesis by auto
  next
    case False
    obtain e1 where e1: "trace_of (sim_step self dt ws_array ui k t st) = calls st @ e1"
      "\<forall>x\<in>set e1. fst x = k \<and> (ui \<longrightarrow> \<not> is_Evaluate (snd x))"
      using sim_step_trace [of self dt ws_array ui k t st] by blast
    show ?thesis
    proof (cases "sim_step self dt ws_array ui k t st")
      case (Inl err)
      with False e1 show ?thesis by (auto simp: trace_of_def)
    next
      case (Inr st1)
      with e1 have c1: "calls st1 = calls st @ e1" by (simp add: trace_of_def)
      obtain e2 where e2:
        "trace_of (sim_loop self dt ws_array ui (enumerate (Suc k) ts) st1) = calls st1 @ e2"
        "\<forall>x\<in>set e2. max 1 (Suc k) \<le> fst x \<and> fst x < Suc k + length ts \<and>
           (ui \<longrightarrow> \<not> is_Evaluate (snd x))"
        using Cons.IH [of "Suc k" st1] by blast
      have "trace_of (sim_loop self dt ws_array ui (enumerate k (t # ts)) st)
            = calls st @ (e1 @ e2)"
        using False Inr c1 e2(1) by simp
      moreover have "\<forall>x\<in>set (e1 @ e2). max 1 k \<le> fst x \<and> fst x < k + length (t # ts) \<and>
           (ui \<longrightarrow> \<not> is_Evaluate (snd x))"
        using False e1(2) e2(2) by auto
      ultimately show ?thesis by blast
    qed
  qed
qed

lemma load_cq_cong:
  "rot_speed s2 ! (i - 1) = rot_speed s1 ! (i - 1) \<Longrightarrow>
   bld_pitch s2 ! (i - 1) = bld_pitch s1 ! (i - 1) \<Longrightarrow>
   load_cq self ui i ws s2 = load_cq self ui i ws s1"
  by (simp add: load_cq_def)

lemma step_at_after_step:
  assumes s: "sim_step self dt ws_array ui i t st = Inr st1"
    and len: "series_len n st" and i: "0 < i" "i < n"
    and tags: "\<forall>x\<in>set (calls st). fst x < i"
  shows "step_at self dt ws_array ui i t st1"
  using s
proof (rule sim_step_InrE)
  fix cq trq pit c1
  assume a: "i < length ws_array"
    "snd (load_cq self ui i (ws_array ! i) st) = Some cq"
    "controller_int self (ctrl_mem st)
       (t, dt, bld_pitch st ! (i - 1), gen_speed st1 ! i, rot_speed st1 ! i, ws_array ! i)
     = Some ((trq, pit), c1)"
    "aero_torque st1 = (aero_torque st)
       [i := 0.5 * rho (turbine self) * (pi * (RotorRad (turbine self))\<^sup>2) * cq
             * RotorRad (turbine self) * (ws_array ! i)\<^sup>2]"
    "rot_speed st1 = (rot_speed st)
       [i := rot_speed st ! (i - 1) + (dt / J (turbine self)) *
              (aero_torque st1 ! i * gb_eff self - Ng (turbine self) * gen_torque st ! (i - 1))]"
    "gen_speed st1 = (gen_speed st) [i := rot_speed st1 ! i * Ng (turbine self)]"
    "gen_torque st1 = (gen_torque st) [i := trq]"
    "bld_pitch st1 = (bld_pitch st) [i := pit]"
    "gen_power st1 = (gen_power st)
       [i := gen_speed st1 ! i * pi / 30 * gen_torque st1 ! i * gen_eff self]"
    "calls st1 = calls st @
       [(i, fst (load_cq self ui i (ws_array ! i) st)),
        (i, CallController (t, dt, bld_pitch st ! (i - 1), gen_speed st1 ! i,
              rot_speed st1 ! i, ws_array ! i))]"
  from len i have l: "i < length (bld_pitch st)" "i < length (rot_speed st)"
    "i < length (gen_speed st)" "i < length (aero_torque st)" "i < length (gen_torque st)"
    "i < length (gen_power st)"
    by (simp_all add: series_len_def)
  from i have p: "rot_speed st1 ! (i - 1) = rot_speed st ! (i - 1)"
    "bld_pitch st1 ! (i - 1) = bld_pitch st ! (i - 1)"
    "gen_torque st1 ! (i - 1) = gen_torque st ! (i - 1)"
    by (simp_all add: a(5,7,8))
  have q: "load_cq self ui i (ws_array ! i) st1 = load_cq self ui i (ws_array ! i) st"
    using p(1,2) by (rule load_cq_cong)
  have f: "filter (\<lambda>x. fst x = i) (calls st) = []"
    using tags by (auto simp: filter_empty_conv)
  have 1: "aero_torque st1 ! i =
          0.5 * rho (turbine self) * (pi * (RotorRad (turbine self))\<^sup>2) * cq
            * RotorRad (turbine self) * (ws_array ! i)\<^sup>2"
    using l(4) by (simp add: a(4))
  have 2: "rot_speed st1 ! i =
       rot_speed st1 ! (i - 1) + (dt / J (turbine self)) *
         (aero_torque st1 ! i * gb_eff self - Ng (turbine self) * gen_torque st1 ! (i - 1))"
    unfolding p using l(2) by (subst a(5)) simp
  have 3: "gen_speed st1 ! i = rot_speed st1 ! i * Ng (turbine self)"
    using l(3) by (subst a(6)) simp
  have 4: "gen_torque st1 ! i = trq" "bld_pitch st1 ! i = pit"
    using l(1,5) by (simp_all add: a(7,8))
  have 5: "gen_power st1 ! i = gen_speed st1 ! i * pi / 30 * gen_torque st1 ! i * gen_eff self"
    using l(6) by (subst a(9)) simp
  have 6: "controller_int self (ctrl_mem st)
       (t, dt, bld_pitch st1 ! (i - 1), gen_speed st1 ! i, rot_speed st1 ! i, ws_array ! i)
     = Some ((gen_torque st1 ! i, bld_pitch st1 ! i), c1)"
    unfolding p 4 by (rule a(3))
  have 7: "filter (\<lambda>x. fst x = i) (calls st1) =
       [(i, fst (load_cq self ui i (ws_array ! i) st1)),
        (i, CallController
              (t, dt, bld_pitch st1 ! (i - 1), gen_speed st1 ! i, rot_speed st1 ! i,
               ws_array ! i))]"
    unfolding a(10) q p by (simp add: f)
  show ?thesis
    unfolding step_at_def using a(1) a(2) 1 2 3 5 6 7 by (auto simp: q)
qed

lemma step_at_frame:
  assumes "step_at self dt ws_array ui i t s1" and "same_below (Suc i) s1 s2"
    and "filter (\<lambda>x. fst x = i) (calls s2) = filter (\<lambda>x. fst x = i) (calls s1)"
  shows "step_at self dt ws_array ui i t s2"
proof -
  have e: "bld_pitch s2 ! i = bld_pitch s1 ! i" "rot_speed s2 ! i = rot_speed s1 ! i"
    "gen_speed s2 ! i = gen_speed s1 ! i" "aero_torque s2 ! i = aero_torque s1 ! i"
    "gen_torque s2 ! i = gen_torque s1 ! i" "gen_power s2 ! i = gen_power s1 ! i"
    "bld_pitch s2 ! (i - 1) = bld_pitch s1 ! (i - 1)"
    "rot_speed s2 ! (i - 1) = rot_speed s1 ! (i - 1)"
    "gen_torque s2 ! (i - 1) = gen_torque s1 ! (i - 1)"
    using assms(2) by (simp_all add: same_below_def)
  have q: "load_cq self ui i (ws_array ! i) s2 = load_cq self ui i (ws_array ! i) s1"
    using e(8,7) by (rule load_cq_cong)
  show ?thesis
    using assms(1) unfolding step_at_def e q assms(3) .
qed

lemma sim_loop_calls_Inr:
  assumes "sim_loop self dt ws_array ui (enumerate k ts) st = Inr st2"
  obtains extra where "calls st2 = calls st @ extra"
    "\<forall>x\<in>set extra. max 1 k \<le> fst x \<and> fst x < k + length ts"
  using sim_loop_trace [of self dt ws_array ui k ts st] assms
  by (auto simp: trace_of_def)

lemma sim_loop_step_at:
  "sim_loop self dt ws_array ui (enumerate k ts) st = Inr st2 \<Longrightarrow> series_len n st \<Longrightarrow>
   k + length ts \<le> n \<Longrightarrow> \<forall>x\<in>set (calls st). fst x < max 1 k \<Longrightarrow>
   max 1 k \<le> i \<Longrightarrow> i < k + length ts \<Longrightarrow>
   step_at self dt ws_array ui i (ts ! (i - k)) st2"
proof (induction ts arbitrary: k st)
  case Nil
  then show ?case by simp
next
  case (Cons t ts)
  show ?case
  proof (cases "k = 0")
    case True
    have "step_at self dt ws_array ui i (ts ! (i - Suc k)) st2"
      using Cons.prems True by (intro Cons.IH [of "Suc k" st]) simp_all
    moreover from Cons.prems(5) True have "(t # ts) ! (i - k) = ts ! (i - Suc k)"
      by (cases i) simp_all
    ultimately show ?thesis by simp
  next
    case False
    with Cons.prems(1) obtain st1 where
      s: "sim_step self dt ws_array ui k t st = Inr st1" and
      l: "sim_loop self dt ws_array ui (enumerate (Suc k) ts) st1 = Inr st2"
      by (auto split: sum.splits)
    from s Cons.prems(2) have len1: "series_len n st1" by (rule sim_step_series_len)
    from False Cons.prems(4) have tags: "\<forall>x\<in>set (calls st). fst x < k" by simp
    from s obtain q c where c1: "calls st1 = calls st @ [(k, q), (k, c)]"
      by (elim sim_step_InrE) simp
    show ?thesis
    proof (cases "i = k")
      case True
      have "step_at self dt ws_array ui k t st1"
        using s Cons.prems(2) _ _ tags
        by (rule step_at_after_step) (use False Cons.prems(3) in simp_all)
      moreover from l have "same_below (max 1 (Suc k)) st1 st2"
        by (rule sim_loop_same_below)
      then have "same_below (Suc k) st1 st2" by simp
      moreover from l obtain extra where "calls st2 = calls st1 @ extra"
        "\<forall>x\<in>set extra. max 1 (Suc k) \<le> fst x \<and> fst x < Suc k + length ts"
        by (rule sim_loop_calls_Inr)
      then have "filter (\<lambda>x. fst x = k) (calls st2) = filter (\<lambda>x. fst x = k) (calls st1)"
        by (auto simp: filter_empty_conv)
      ultimately have "step_at self dt ws_array ui k t st2" by (rule step_at_frame)
      with True show ?thesis by simp
    next
      case neq: False
      with Cons.prems(5) False have gt: "Suc k \<le> i" by simp
      have "step_at self dt ws_array ui i (ts ! (i - Suc k)) st2"
        using l len1
      proof (rule Cons.IH)
        show "Suc k + length ts \<le> n" using Cons.prems(3) by simp
        show "\<forall>x\<in>set (calls st1). fst x < max 1 (Suc k)" using tags c1 by auto
        show "max 1 (Suc k) \<le> i" using gt by simp
        show "i < Suc k + length ts" using Cons.prems(6) by simp
      qed
      moreover from gt have "(t # ts) ! (i - k) = ts ! (i - Suc k)"
        by (simp add: Suc_diff_le)
      ultimately show ?thesis by simp
    qed
  qed
qed

lemma declare_arrays_series_len:
  "series_len (length t_array) (declare_arrays self c0 t_array rpm pitch)"
  by (simp add: series_len_def declare_arrays_def ones_like_times_def)

lemma test_cc_blade_tags: "\<forall>x\<in>set (snd (test_cc_blade self ws_array st)). fst x = 0"
  by (simp add: test_cc_blade_def Let_def split: option.splits)

lemma sim_ws_series_unfold:
  "2 \<le> length t_array \<Longrightarrow>
   sim_ws_series self c0 t_array ws_array rpm pitch =
     sim_loop self (t_array ! 1 - t_array ! 0) ws_array
       (use_interpolated_of self c0 t_array ws_array rpm pitch) (enumerate 0 t_array)
       ((declare_arrays self c0 t_array rpm pitch)
          \<lparr>calls := snd (test_cc_blade self ws_array
                           (declare_arrays self c0 t_array rpm pitch))\<rparr>)"
  by (simp add: sim_ws_series_def use_interpolated_of_def Let_def split: prod.splits)

lemma sim_ws_series_Inr_length:
  "sim_ws_series self c0 t_array ws_array rpm pitch = Inr st \<Longrightarrow> 2 \<le> length t_array"
  by (simp add: sim_ws_series_def split: if_splits)

lemma run_series_len:
  assumes "sim_ws_series self c0 t_array ws_array rpm pitch = Inr st"
  shows "series_len (length t_array) st"
proof -
  from assms have "2 \<le> length t_array" by (rule sim_ws_series_Inr_length)
  with assms have "sim_loop self (t_array ! 1 - t_array ! 0) ws_array
       (use_interpolated_of self c0 t_array ws_array rpm pitch) (enumerate 0 t_array)
       ((declare_arrays self c0 t_array rpm pitch)
          \<lparr>calls := snd (test_cc_blade self ws_array
                           (declare_arrays self c0 t_array rpm pitch))\<rparr>) = Inr st"
    by (simp add: sim_ws_series_unfold)
  then show ?thesis
    by (rule sim_loop_series_len)
      (use declare_arrays_series_len [of t_array self c0 rpm pitch] in \<open>simp add: series_len_def\<close>)
qed

lemma run_same_below:
  assumes "sim_ws_series self c0 t_array ws_array rpm pitch = Inr st"
  shows "same_below 1 (declare_arrays self c0 t_array rpm pitch) st"
proof -
  from assms have "2 \<le> length t_array" by (rule sim_ws_series_Inr_length)
  with assms have "sim_loop self (t_array ! 1 - t_array ! 0) ws_array
       (use_interpolated_of self c0 t_array ws_array rpm pitch) (enumerate 0 t_array)
       ((declare_arrays self c0 t_array rpm pitch)
          \<lparr>calls := snd (test_cc_blade self ws_array
                           (declare_arrays self c0 t_array rpm pitch))\<rparr>) = Inr st"
    by (simp add: sim_ws_series_unfold)
  then have "same_below (max 1 0)
       ((declare_arrays self c0 t_array rpm pitch)
          \<lparr>calls := snd (test_cc_blade self ws_array
                           (declare_arrays self c0 t_array rpm pitch))\<rparr>) st"
    by (rule sim_loop_same_below)
  then show ?thesis by (simp add: same_below_def)
qed

lemma run_step_at:
  assumes "sim_ws_series self c0 t_array ws_array rpm pitch = Inr st"
    and "1 \<le> i" and "i < length t_array"
  shows "step_at self (t_array ! 1 - t_array ! 0) ws_array
           (use_interpolated_of self c0 t_array ws_array rpm pitch) i (t_array ! i) st"
proof -
  from assms(1) have "2 \<le> length t_array" by (rule sim_ws_series_Inr_length)
  with assms(1) have "sim_loop self (t_array ! 1 - t_array ! 0) ws_array
       (use_interpolated_of self c0 t_array ws_array rpm pitch) (enumerate 0 t_array)
       ((declare_arrays self c0 t_array rpm pitch)
          \<lparr>calls := snd (test_cc_blade self ws_array
                           (declare_arrays self c0 t_array rpm pitch))\<rparr>) = Inr st"
    by (simp add: sim_ws_series_unfold)
  then have "step_at self (t_array ! 1 - t_array ! 0) ws_array
       (use_interpolated_of self c0 t_array ws_array rpm pitch) i (t_array ! (i - 0)) st"
  proof (rule sim_loop_step_at)
    show "series_len (length t_array) ((declare_arrays self c0 t_array rpm pitch)
          \<lparr>calls := snd (test_cc_blade self ws_array
                           (declare_arrays self c0 t_array rpm pitch))\<rparr>)"
      using declare_arrays_series_len [of t_array self c0 rpm pitch]
      by (simp add: series_len_def)
    show "\<forall>x\<in>set (calls ((declare_arrays self c0 t_array rpm pitch)
          \<lparr>calls := snd (test_cc_blade self ws_array
                           (declare_arrays self c0 t_array rpm pitch))\<rparr>)). fst x < max 1 0"
      using test_cc_blade_tags [of self ws_array "declare_arrays self c0 t_array rpm pitch"]
      by simp
  qed (use assms in simp_all)
  then show ?thesis by simp
qed

lemmas demo_defs = demo_sim_def Sim_init_def demo_turbine_def demo_controller_def
  sim_ws_series_def declare_arrays_def ones_like_times_def test_cc_blade_def
  sim_step_def load_cq_def np_div_def rpm2RadSec_def Let_def

lemma demo_run: "sim_ws_series demo_sim () [0, 1] [10, 10] 10 0 = Inr demo_final"
  by (simp add: demo_defs demo_final_def)

lemma demo_zero_run: "sim_ws_series demo_sim () [0, 1] [10, 0] 10 0 = Inr demo_zero_final"
  by (simp add: demo_defs demo_zero_final_def)

lemma demo_use_interpolated: "use_interpolated_of demo_sim () [0, 1] [10, 10] 10 0"
  by (simp add: use_interpolated_of_def demo_defs)

lemma declare_arrays_nth:
  assumes "i < length t_array"
  shows "bld_pitch (declare_arrays self c0 t_array rpm pitch) ! i = pitch"
    "rot_speed (declare_arrays self c0 t_array rpm pitch) ! i = rpm * rpm2RadSec"
    "gen_speed (declare_arrays self c0 t_array rpm pitch) ! i = rpm * Ng (turbine self)"
    "aero_torque (declare_arrays self c0 t_array rpm pitch) ! i = 1000"
    "gen_torque (declare_arrays self c0 t_array rpm pitch) ! i = 1"
    "gen_power (declare_arrays self c0 t_array rpm pitch) ! i = 0"
  using assms by (simp_all add: declare_arrays_def ones_like_times_def)

lemma run_index0:
  assumes "sim_ws_series self c0 t_array ws_array rpm pitch = Inr st"
  shows "bld_pitch st ! 0 = bld_pitch (declare_arrays self c0 t_array rpm pitch) ! 0"
    "rot_speed st ! 0 = rot_speed (declare_arrays self c0 t_array rpm pitch) ! 0"
    "gen_speed st ! 0 = gen_speed (declare_arrays self c0 t_array rpm pitch) ! 0"
    "aero_torque st ! 0 = aero_torque (declare_arrays self c0 t_array rpm pitch) ! 0"
    "gen_torque st ! 0 = gen_torque (declare_arrays self c0 t_array rpm pitch) ! 0"
    "gen_power st ! 0 = gen_power (declare_arrays self c0 t_array rpm pitch) ! 0"
  using run_same_below [OF assms] by (simp_all add: same_below_def)

lemma sim_ws_series_Inr_nonempty:
  assumes "sim_ws_series self c0 t_array ws_array rpm pitch = Inr st"
  shows "0 < length t_array"
  using sim_ws_series_Inr_length [OF assms] by linarith

lemma step_calls_of_run:
  assumes "sim_ws_series self c0 t_array ws_array rotor_rpm_init init_pitch = Inr st"
    and "1 \<le> i" and "i < length t_array"
  shows "filter (\<lambda>x. fst x = i) (calls st) =
           [(i, if use_interpolated_of self c0 t_array ws_array rotor_rpm_init init_pitch
                then InterpSurface (bld_pitch st ! (i - 1))
                       (np_div (rot_speed st ! (i - 1) * RotorRad (turbine self))
                          (ws_array ! i))
                else Evaluate (ws_array ! i) (rot_speed st ! (i - 1) / rpm2RadSec)
                       (bld_pitch st ! (i - 1))),
            (i, CallController
                  (t_array ! i, t_array ! 1 - t_array ! 0, bld_pitch st ! (i - 1),
                   gen_speed st ! i, rot_speed st ! i, ws_array ! i))]"
  using run_step_at [OF assms] by (simp add: step_at_def load_cq_def Let_def)

lemma sim_step_completes:
  assumes "i < length ws_array"
    and "\<And>p x. Cq_interp_surface (turbine self) p x \<noteq> None"
    and "\<And>c a. controller_int self c a \<noteq> None"
  shows "\<exists>st1. sim_step self dt ws_array True i t st = Inr st1"
proof -
  let ?tsr = "np_div (rot_speed st ! (i - 1) * RotorRad (turbine self)) (ws_array ! i)"
  obtain cq where cq: "Cq_interp_surface (turbine self) (bld_pitch st ! (i - 1)) ?tsr = Some cq"
    using assms(2) by fastforce
  have "\<And>a. \<exists>trq pit c1. controller_int self (ctrl_mem st) a = Some ((trq, pit), c1)"
    using assms(3) by (metis not_Some_eq surj_pair)
  with assms(1) cq show ?thesis
    unfolding sim_step_def load_cq_def Let_def
    by (simp split: prod.splits option.splits)
qed

lemma sim_loop_completes:
  assumes "\<And>p x. Cq_interp_surface (turbine self) p x \<noteq> None"
    and "\<And>c a. controller_int self c a \<noteq> None"
  shows "k + length ts \<le> length ws_array \<Longrightarrow>
         \<exists>st2. sim_loop self dt ws_array True (enumerate k ts) st = Inr st2"
proof (induction ts arbitrary: k st)
  case Nil
  then show ?case by simp
next
  case (Cons t ts)
  show ?case
  proof (cases "k = 0")
    case True
    with Cons.prems Cons.IH [of "Suc k" st] show ?thesis by simp
  next
    case False
    from Cons.prems have "k < length ws_array" by simp
    then obtain st1 where s: "sim_step self dt ws_array True k t st = Inr st1"
      using sim_step_completes [OF _ assms] by blast
    from Cons.prems have "Suc k + length ts \<le> length ws_array" by simp
    then obtain st2 where "sim_loop self dt ws_array True (enumerate (Suc k) ts) st1 = Inr st2"
      using Cons.IH by blast
    with s False show ?thesis by simp
  qed
qed

lemma test_cc_blade_calls:
  "2 \<le> length ws_array \<Longrightarrow>
   snd (test_cc_blade self ws_array st) =
     [(0, Evaluate (ws_array ! 1) (rot_speed st ! 0 / rpm2RadSec) (bld_pitch st ! 0))]"
  by (simp add: test_cc_blade_def Let_def split: option.splits)

lemma sim_step_turbine_efficiencies:
  "sim_step (self\<lparr>turbine := (turbine self)\<lparr>GBoxEff := a, GenEff := b\<rparr>\<rparr>) dt ws_array ui i t st
   = sim_step self dt ws_array ui i t st"
  by (simp add: sim_step_def load_cq_def Let_def cong: option.case_cong prod.case_cong)

lemma sim_loop_turbine_efficiencies:
  "sim_loop (self\<lparr>turbine := (turbine self)\<lparr>GBoxEff := a, GenEff := b\<rparr>\<rparr>) dt ws_array ui ets st
   = sim_loop self dt ws_array ui ets st"
  by (induction self dt ws_array ui ets st rule: sim_loop.induct)
    (simp_all add: sim_step_turbine_efficiencies split: sum.splits)

lemma sim_ws_series_turbine_efficiencies:
  "sim_ws_series (Sim_init (trb\<lparr>GBoxEff := a, GenEff := b\<rparr>) ctl) c0 t_array ws_array rpm pitch
   = sim_ws_series (Sim_init trb ctl) c0 t_array ws_array rpm pitch"
proof -
  have s: "Sim_init (trb\<lparr>GBoxEff := a, GenEff := b\<rparr>) ctl =
      (Sim_init trb ctl)\<lparr>turbine := (turbine (Sim_init trb ctl))\<lparr>GBoxEff := a, GenEff := b\<rparr>\<rparr>"
    by (simp add: Sim_init_def)
  show ?thesis
    unfolding s sim_ws_series_def
    by (simp add: sim_loop_turbine_efficiencies declare_arrays_def test_cc_blade_def Let_def)
qed

section \<open>The claims\<close>

subsection \<open>C1: generator speed and rotor speed\<close>

text \<open>
  Claim C1 says that the generator speed at every index, index 0 included, is the rotor
  speed at that index times the gearbox ratio. Line 69 initialises the generator speed
  with \<open>rotor_rpm_init * Ng\<close>, in rpm, while line 68 initialises the rotor speed with
  \<open>rotor_rpm_init * rpm2RadSec\<close>, in rad/s, although the comment of line 69 says rad/s
  too, and line 105 does compute \<open>rot_speed[i] * Ng\<close> for the later indices. The run
  of the example turbine, with the default 10 rpm and a gearbox ratio of 97, ends with the
  generator speed 970 at index 0, where the rotor speed times the ratio is \<open>97 * pi / 3\<close>,
  about 101.6.
\<close>

theorem gen_speed_index0_not_scaled_rotor_speed:
  "sim_ws_series demo_sim () [0, 1] [10, 10] 10 0 = Inr demo_final \<and>
   gen_speed demo_final ! 0 = 970 \<and>
   rot_speed demo_final ! 0 * Ng (turbine demo_sim) = 97 * pi / 3 \<and>
   gen_speed demo_final ! 0 \<noteq> rot_speed demo_final ! 0 * Ng (turbine demo_sim)"
  using demo_run pi_less_4
  by (simp add: demo_final_def demo_sim_def Sim_init_def demo_turbine_def)

subsection \<open>C2: a wind speed of zero\<close>

text \<open>
  Claim C2 says that a wind array with a zero makes the run raise an input error before
  the tip-speed ratio is computed. The simulator checks no input. What holds instead:
  when the interpolated surface is in use, the wind array is as long as the time array
  (of two samples or more), and neither the surface nor the controller raises, the run
  completes whatever the wind speeds are; and at every index \<open>i\<close> from 1 on whose wind
  speed is 0 the division of line 93 is made, its non-finite result is passed to the
  surface, and the run goes on.
\<close>

theorem zero_wind_speed_not_rejected:
  assumes "2 \<le> length t_array" and "length t_array \<le> length ws_array"
    and "use_interpolated_of self c0 t_array ws_array rotor_rpm_init init_pitch"
    and "\<And>p x. Cq_interp_surface (turbine self) p x \<noteq> None"
    and "\<And>c a. controller_int self c a \<noteq> None"
  shows "\<exists>st. sim_ws_series self c0 t_array ws_array rotor_rpm_init init_pitch = Inr st \<and>
           (\<forall>i. 1 \<le> i \<and> i < length t_array \<and> ws_array ! i = 0 \<longrightarrow>
              (i, InterpSurface (bld_pitch st ! (i - 1))
                    (np_div (rot_speed st ! (i - 1) * RotorRad (turbine self)) 0))
                \<in> set (calls st) \<and>
              \<not> finite_np (np_div (rot_speed st ! (i - 1) * RotorRad (turbine self)) 0))"
proof -
  have "0 + length t_array \<le> length ws_array" using assms(2) by simp
  then obtain st where "sim_loop self (t_array ! 1 - t_array ! 0) ws_array True
       (enumerate 0 t_array)
       ((declare_arrays self c0 t_array rotor_rpm_init init_pitch)
          \<lparr>calls := snd (test_cc_blade self ws_array
                           (declare_arrays self c0 t_array rotor_rpm_init init_pitch))\<rparr>)
       = Inr st"
    using sim_loop_completes [OF assms(4,5)] by blast
  with assms(1,3) have r: "sim_ws_series self c0 t_array ws_array rotor_rpm_init init_pitch = Inr st"
    by (simp add: sim_ws_series_unfold)
  have "(i, InterpSurface (bld_pitch st ! (i - 1))
              (np_div (rot_speed st ! (i - 1) * RotorRad (turbine self)) 0)) \<in> set (calls st)
        \<and> \<not> finite_np (np_div (rot_speed st ! (i - 1) * RotorRad (turbine self)) 0)"
    if i: "1 \<le> i" "i < length t_array" "ws_array ! i = 0" for i
  proof -
    have "step_at self (t_array ! 1 - t_array ! 0) ws_array True i (t_array ! i) st"
      using run_step_at [OF r i(1,2)] assms(3) by simp
    then have "filter (\<lambda>x. fst x = i) (calls st) =
       [(i, fst (load_cq self True i (ws_array ! i) st)),
        (i, CallController
              (t_array ! i, t_array ! 1 - t_array ! 0, bld_pitch st ! (i - 1), gen_speed st ! i,
               rot_speed st ! i, ws_array ! i))]"
      by (simp add: step_at_def)
    then have "(i, fst (load_cq self True i (ws_array ! i) st))
                 \<in> set (filter (\<lambda>x. fst x = i) (calls st))"
      by simp
    then have "(i, fst (load_cq self True i (ws_array ! i) st)) \<in> set (calls st)"
      by simp
    then show ?thesis
      using i(3) by (simp add: load_cq_def Let_def np_div_def)
  qed
  with r show ?thesis by blast
qed

text \<open>The example run with the wind speeds 10 and 0.\<close>

theorem zero_wind_speed_not_rejected_witness:
  "2 \<le> length [0::real, 1] \<and> length [0::real, 1] \<le> length [10::real, 0] \<and>
   use_interpolated_of demo_sim () [0, 1] [10, 0] 10 0 \<and>
   sim_ws_series demo_sim () [0, 1] [10, 0] 10 0 = Inr demo_zero_final \<and>
   [10, 0::real] ! 1 = 0 \<and>
   (1, InterpSurface (bld_pitch demo_zero_final ! 0)
         (np_div (rot_speed demo_zero_final ! 0 * RotorRad (turbine demo_sim)) 0))
     \<in> set (calls demo_zero_final) \<and>
   \<not> finite_np (np_div (rot_speed demo_zero_final ! 0 * RotorRad (turbine demo_sim)) 0)"
proof -
  have u: "use_interpolated_of demo_sim () [0, 1] [10, 0] 10 0"
    by (simp add: use_interpolated_of_def demo_defs)
  obtain st where r: "sim_ws_series demo_sim () [0, 1] [10, 0] 10 0 = Inr st"
    and z: "\<forall>i. 1 \<le> i \<and> i < length [0::real, 1] \<and> [10, 0::real] ! i = 0 \<longrightarrow>
              (i, InterpSurface (bld_pitch st ! (i - 1))
                    (np_div (rot_speed st ! (i - 1) * RotorRad (turbine demo_sim)) 0))
                \<in> set (calls st) \<and>
              \<not> finite_np (np_div (rot_speed st ! (i - 1) * RotorRad (turbine demo_sim)) 0)"
    using zero_wind_speed_not_rejected [of "[0, 1]" "[10, 0]" demo_sim "()" 10 0] u
    by (auto simp: demo_sim_def Sim_init_def demo_turbine_def demo_controller_def)
  from r have st: "st = demo_zero_final" by (simp add: demo_zero_run)
  have "(1, InterpSurface (bld_pitch st ! (1 - 1))
         (np_div (rot_speed st ! (1 - 1) * RotorRad (turbine demo_sim)) 0))
     \<in> set (calls st) \<and>
   \<not> finite_np (np_div (rot_speed st ! (1 - 1) * RotorRad (turbine demo_sim)) 0)"
    using z [rule_format, of 1] by simp
  with u demo_zero_run show ?thesis unfolding st by simp
qed

text \<open>
  Against C2 as it is written: the wind array \<open>[10, 0]\<close> holds a zero, the run returns
  its series, and the surface was queried at index 1 with the quotient \<open>+inf\<close>.
\<close>

theorem zero_wind_speed_counterexample:
  "(0::real) \<in> set [10, 0] \<and>
   sim_ws_series demo_sim () [0, 1] [10, 0] 10 0 = Inr demo_zero_final \<and>
   (1, InterpSurface 0 PInf) \<in> set (calls demo_zero_final)"
  using demo_zero_run by (simp add: demo_zero_final_def)

subsection \<open>C3: the rotor speed update\<close>

text \<open>
  Claim C3: in a completed run, for every index \<open>i\<close> from 1 on, the rotor speed is
  \<open>rot_speed[i-1] + (dt / J) * (aero_torque[i] * gb_eff - Ng * gen_torque[i-1])\<close>, where
  \<open>dt\<close> is \<open>t_array[1] - t_array[0]\<close> at every step. The series are the saved ones: the
  value at \<open>i - 1\<close> that step \<open>i\<close> read is the one the run ends with.
\<close>

theorem rotor_speed_forward_euler:
  assumes "sim_ws_series self c0 t_array ws_array rotor_rpm_init init_pitch = Inr st"
    and "1 \<le> i" and "i < length t_array"
  shows "rot_speed st ! i =
           rot_speed st ! (i - 1) + ((t_array ! 1 - t_array ! 0) / J (turbine self)) *
             (aero_torque st ! i * gb_eff self - Ng (turbine self) * gen_torque st ! (i - 1))"
  using run_step_at [OF assms] by (simp add: step_at_def)

text \<open>The update at index 1 of the example run.\<close>

theorem rotor_speed_forward_euler_witness:
  "sim_ws_series demo_sim () [0, 1] [10, 10] 10 0 = Inr demo_final \<and>
   (1::nat) \<le> 1 \<and> 1 < length [0::real, 1] \<and>
   rot_speed demo_final ! 1 =
     rot_speed demo_final ! (1 - 1) + (([0, 1] ! 1 - [0, 1] ! 0) / J (turbine demo_sim)) *
       (aero_torque demo_final ! 1 * gb_eff demo_sim
        - Ng (turbine demo_sim) * gen_torque demo_final ! (1 - 1))"
  using rotor_speed_forward_euler [OF demo_run, of 1] demo_run by simp

subsection \<open>C4: the evaluator is tried once\<close>

text \<open>
  Claim C4: when the test before the loop fails (the flag \<open>use_interpolated\<close> is set),
  the whole run, completed or not, calls the evaluator exactly once, in that test, with
  the second wind sample and the initial speed and pitch; and every step of a completed
  run queries the interpolated surface first.
\<close>

theorem evaluator_attempted_once:
  assumes "2 \<le> length t_array" and "2 \<le> length ws_array"
    and "use_interpolated_of self c0 t_array ws_array rotor_rpm_init init_pitch"
  shows "filter (\<lambda>x. is_Evaluate (snd x))
           (trace_of (sim_ws_series self c0 t_array ws_array rotor_rpm_init init_pitch)) =
           [(0, Evaluate (ws_array ! 1) (rotor_rpm_init * rpm2RadSec / rpm2RadSec) init_pitch)] \<and>
         (\<forall>st i. sim_ws_series self c0 t_array ws_array rotor_rpm_init init_pitch = Inr st \<and>
            1 \<le> i \<and> i < length t_array \<longrightarrow>
            hd (filter (\<lambda>x. fst x = i) (calls st)) =
              (i, InterpSurface (bld_pitch st ! (i - 1))
                    (np_div (rot_speed st ! (i - 1) * RotorRad (turbine self))
                       (ws_array ! i))))"
proof -
  let ?ini = "declare_arrays self c0 t_array rotor_rpm_init init_pitch"
  let ?run = "sim_ws_series self c0 t_array ws_array rotor_rpm_init init_pitch"
  from assms(1) have pos: "0 < length t_array" by linarith
  have pre: "snd (test_cc_blade self ws_array ?ini) =
      [(0, Evaluate (ws_array ! 1) (rotor_rpm_init * rpm2RadSec / rpm2RadSec) init_pitch)]"
    using assms(2) pos by (simp add: test_cc_blade_calls declare_arrays_nth)
  obtain extra where e: "trace_of ?run = snd (test_cc_blade self ws_array ?ini) @ extra"
    "\<forall>x\<in>set extra. \<not> is_Evaluate (snd x)"
    using sim_loop_trace [of self "t_array ! 1 - t_array ! 0" ws_array True 0 t_array
        "?ini\<lparr>calls := snd (test_cc_blade self ws_array ?ini)\<rparr>"] assms(1,3)
    by (auto simp: sim_ws_series_unfold)
  from e(2) have "filter (\<lambda>x. is_Evaluate (snd x)) extra = []"
    by (simp add: filter_empty_conv)
  then have a: "filter (\<lambda>x. is_Evaluate (snd x)) (trace_of ?run) =
      [(0, Evaluate (ws_array ! 1) (rotor_rpm_init * rpm2RadSec / rpm2RadSec) init_pitch)]"
    by (simp add: e(1) pre)
  have b: "hd (filter (\<lambda>x. fst x = i) (calls st)) =
      (i, InterpSurface (bld_pitch st ! (i - 1))
            (np_div (rot_speed st ! (i - 1) * RotorRad (turbine self)) (ws_array ! i)))"
    if "?run = Inr st" "1 \<le> i" "i < length t_array" for st i
    using step_calls_of_run [OF that] assms(3) by simp
  from a b show ?thesis by blast
qed

text \<open>The example run: its turbine has no evaluator.\<close>

theorem evaluator_attempted_once_witness:
  "2 \<le> length [0::real, 1] \<and> 2 \<le> length [10::real, 10] \<and>
   use_interpolated_of demo_sim () [0, 1] [10, 10] 10 0 \<and>
   filter (\<lambda>x. is_Evaluate (snd x)) (trace_of (sim_ws_series demo_sim () [0, 1] [10, 10] 10 0)) =
     [(0, Evaluate ([10, 10] ! 1) (10 * rpm2RadSec / rpm2RadSec) 0)] \<and>
   sim_ws_series demo_sim () [0, 1] [10, 10] 10 0 = Inr demo_final \<and>
   hd (filter (\<lambda>x. fst x = 1) (calls demo_final)) =
     (1, InterpSurface (bld_pitch demo_final ! (1 - 1))
           (np_div (rot_speed demo_final ! (1 - 1) * RotorRad (turbine demo_sim))
              ([10, 10] ! 1)))"
proof -
  have l: "2 \<le> length [0::real, 1]" "2 \<le> length [10::real, 10]" by simp_all
  note th = evaluator_attempted_once [OF l demo_use_interpolated]
  from th have a: "filter (\<lambda>x. is_Evaluate (snd x))
       (trace_of (sim_ws_series demo_sim () [0, 1] [10, 10] 10 0)) =
     [(0, Evaluate ([10, 10] ! 1) (10 * rpm2RadSec / rpm2RadSec) 0)]"
    by (rule conjunct1)
  from th have "\<forall>st i. sim_ws_series demo_sim () [0, 1] [10, 10] 10 0 = Inr st \<and>
            1 \<le> i \<and> i < length [0::real, 1] \<longrightarrow>
            hd (filter (\<lambda>x. fst x = i) (calls st)) =
              (i, InterpSurface (bld_pitch st ! (i - 1))
                    (np_div (rot_speed st ! (i - 1) * RotorRad (turbine demo_sim))
                       ([10, 10] ! i)))"
    by (rule conjunct2)
  then have b: "hd (filter (\<lambda>x. fst x = 1) (calls demo_final)) =
     (1, InterpSurface (bld_pitch demo_final ! (1 - 1))
           (np_div (rot_speed demo_final ! (1 - 1) * RotorRad (turbine demo_sim))
              ([10, 10] ! 1)))"
    using demo_run by (elim allE [of _ demo_final] allE [of _ 1]) simp
  from l demo_use_interpolated a demo_run b show ?thesis by blast
qed

subsection \<open>C5: the order of evaluation in a step\<close>

text \<open>
  Claim C5: in a completed run, the calls made at an index \<open>i\<close> from 1 on are exactly two,
  in this order: the query for the torque coefficient, made with the blade pitch and the
  rotor speed of index \<open>i - 1\<close>, and the call of the controller, made with the time of
  index \<open>i\<close>, the generator and rotor speed just stored at index \<open>i\<close>, and the blade pitch
  of index \<open>i - 1\<close>. The aerodynamic torque of index \<open>i\<close> is computed from the coefficient
  that this query returned, and the generator torque and blade pitch of index \<open>i\<close> are what
  the controller returned; so the pitch that step \<open>i\<close> uses is the command of step
  \<open>i - 1\<close>, or the initial pitch when \<open>i = 1\<close>.
\<close>

theorem one_step_lag:
  assumes "sim_ws_series self c0 t_array ws_array rotor_rpm_init init_pitch = Inr st"
    and "1 \<le> i" and "i < length t_array"
  shows "filter (\<lambda>x. fst x = i) (calls st) =
           [(i, if use_interpolated_of self c0 t_array ws_array rotor_rpm_init init_pitch
                then InterpSurface (bld_pitch st ! (i - 1))
                       (np_div (rot_speed st ! (i - 1) * RotorRad (turbine self))
                          (ws_array ! i))
                else Evaluate (ws_array ! i) (rot_speed st ! (i - 1) / rpm2RadSec)
                       (bld_pitch st ! (i - 1))),
            (i, CallController
                  (t_array ! i, t_array ! 1 - t_array ! 0, bld_pitch st ! (i - 1),
                   gen_speed st ! i, rot_speed st ! i, ws_array ! i))] \<and>
         (\<exists>cq. (if use_interpolated_of self c0 t_array ws_array rotor_rpm_init init_pitch
                then Cq_interp_surface (turbine self) (bld_pitch st ! (i - 1))
                       (np_div (rot_speed st ! (i - 1) * RotorRad (turbine self))
                          (ws_array ! i))
                else cc_rotor_evaluate (turbine self) (ws_array ! i)
                       (rot_speed st ! (i - 1) / rpm2RadSec) (bld_pitch st ! (i - 1)))
               = Some cq \<and>
               aero_torque st ! i =
                 0.5 * rho (turbine self) * (pi * (RotorRad (turbine self))\<^sup>2) * cq
                   * RotorRad (turbine self) * (ws_array ! i)\<^sup>2) \<and>
         (\<exists>c c1. controller_int self c
                   (t_array ! i, t_array ! 1 - t_array ! 0, bld_pitch st ! (i - 1),
                    gen_speed st ! i, rot_speed st ! i, ws_array ! i)
                 = Some ((gen_torque st ! i, bld_pitch st ! i), c1)) \<and>
         bld_pitch st ! 0 = init_pitch"
proof -
  let ?ui = "use_interpolated_of self c0 t_array ws_array rotor_rpm_init init_pitch"
  have s: "step_at self (t_array ! 1 - t_array ! 0) ws_array ?ui i (t_array ! i) st"
    using assms by (rule run_step_at)
  have q1: "fst (load_cq self ?ui i (ws_array ! i) st) =
      (if ?ui
       then InterpSurface (bld_pitch st ! (i - 1))
              (np_div (rot_speed st ! (i - 1) * RotorRad (turbine self)) (ws_array ! i))
       else Evaluate (ws_array ! i) (rot_speed st ! (i - 1) / rpm2RadSec)
              (bld_pitch st ! (i - 1)))"
    by (simp add: load_cq_def Let_def)
  have q2: "snd (load_cq self ?ui i (ws_array ! i) st) =
      (if ?ui
       then Cq_interp_surface (turbine self) (bld_pitch st ! (i - 1))
              (np_div (rot_speed st ! (i - 1) * RotorRad (turbine self)) (ws_array ! i))
       else cc_rotor_evaluate (turbine self) (ws_array ! i)
              (rot_speed st ! (i - 1) / rpm2RadSec) (bld_pitch st ! (i - 1)))"
    by (simp add: load_cq_def Let_def)
  have p: "bld_pitch st ! 0 = init_pitch"
    using run_index0(1) [OF assms(1)] sim_ws_series_Inr_nonempty [OF assms(1)]
    by (simp add: declare_arrays_nth)
  from s p show ?thesis
    unfolding step_at_def q1 q2 by blast
qed

text \<open>Step 1 of the example run.\<close>

theorem one_step_lag_witness:
  "sim_ws_series demo_sim () [0, 1] [10, 10] 10 0 = Inr demo_final \<and>
   (1::nat) \<le> 1 \<and> 1 < length [0::real, 1] \<and>
   filter (\<lambda>x. fst x = 1) (calls demo_final) =
     [(1, InterpSurface (bld_pitch demo_final ! 0)
            (np_div (rot_speed demo_final ! 0 * RotorRad (turbine demo_sim)) 10)),
      (1, CallController
            (1, 1, bld_pitch demo_final ! 0, gen_speed demo_final ! 1,
             rot_speed demo_final ! 1, 10))] \<and>
   controller_int demo_sim ()
     (1, 1, bld_pitch demo_final ! 0, gen_speed demo_final ! 1, rot_speed demo_final ! 1, 10)
     = Some ((gen_torque demo_final ! 1, bld_pitch demo_final ! 1), ()) \<and>
   bld_pitch demo_final ! 0 = 0"
  using one_step_lag [OF demo_run, of 1] demo_run demo_use_interpolated
  by (simp add: demo_sim_def Sim_init_def demo_controller_def demo_final_def)

subsection \<open>C6: index 0\<close>

text \<open>
  Claim C6 says that index 0 of every series holds the caller's initial conditions
  verbatim and is never overwritten. What holds: in a completed run, index 0 of each of
  the six series is what lines 67 to 72 put there, so the loop does not write it. That
  value is the caller's \<open>init_pitch\<close> for the blade pitch, the caller's
  \<open>rotor_rpm_init\<close> times \<open>rpm2RadSec\<close> for the rotor speed, and the constants 1000, 1
  and 0 for the aerodynamic torque, the generator torque and the generator power. (What
  line 69 puts into the generator speed is the subject of C1 and is not stated here.)
\<close>

theorem index0_holds_initialisation:
  assumes "sim_ws_series self c0 t_array ws_array rotor_rpm_init init_pitch = Inr st"
  shows "bld_pitch st ! 0 =
           bld_pitch (declare_arrays self c0 t_array rotor_rpm_init init_pitch) ! 0 \<and>
         rot_speed st ! 0 =
           rot_speed (declare_arrays self c0 t_array rotor_rpm_init init_pitch) ! 0 \<and>
         gen_speed st ! 0 =
           gen_speed (declare_arrays self c0 t_array rotor_rpm_init init_pitch) ! 0 \<and>
         aero_torque st ! 0 =
           aero_torque (declare_arrays self c0 t_array rotor_rpm_init init_pitch) ! 0 \<and>
         gen_torque st ! 0 =
           gen_torque (declare_arrays self c0 t_array rotor_rpm_init init_pitch) ! 0 \<and>
         gen_power st ! 0 =
           gen_power (declare_arrays self c0 t_array rotor_rpm_init init_pitch) ! 0 \<and>
         bld_pitch st ! 0 = init_pitch \<and> rot_speed st ! 0 = rotor_rpm_init * rpm2RadSec \<and>
         aero_torque st ! 0 = 1000 \<and> gen_torque st ! 0 = 1 \<and> gen_power st ! 0 = 0"
  using run_index0 [OF assms] sim_ws_series_Inr_nonempty [OF assms]
  by (simp add: declare_arrays_nth)

text \<open>Index 0 of the example run.\<close>

theorem index0_holds_initialisation_witness:
  "sim_ws_series demo_sim () [0, 1] [10, 10] 10 0 = Inr demo_final \<and>
   bld_pitch demo_final ! 0 = bld_pitch (declare_arrays demo_sim () [0, 1] 10 0) ! 0 \<and>
   rot_speed demo_final ! 0 = rot_speed (declare_arrays demo_sim () [0, 1] 10 0) ! 0 \<and>
   gen_speed demo_final ! 0 = gen_speed (declare_arrays demo_sim () [0, 1] 10 0) ! 0 \<and>
   aero_torque demo_final ! 0 = aero_torque (declare_arrays demo_sim () [0, 1] 10 0) ! 0 \<and>
   gen_torque demo_final ! 0 = gen_torque (declare_arrays demo_sim () [0, 1] 10 0) ! 0 \<and>
   gen_power demo_final ! 0 = gen_power (declare_arrays demo_sim () [0, 1] 10 0) ! 0 \<and>
   bld_pitch demo_final ! 0 = 0 \<and> rot_speed demo_final ! 0 = 10 * rpm2RadSec \<and>
   aero_torque demo_final ! 0 = 1000 \<and> gen_torque demo_final ! 0 = 1 \<and>
   gen_power demo_final ! 0 = 0"
  using index0_holds_initialisation [OF demo_run] demo_run by simp

text \<open>
  Against C6 as it is written: the caller gave 10 rpm and the pitch 0; index 0 of the
  rotor speed is not 10, and the two torques hold 1000 and 1, which the caller never gave.
\<close>

theorem index0_not_verbatim_counterexample:
  "sim_ws_series demo_sim () [0, 1] [10, 10] 10 0 = Inr demo_final \<and>
   rot_speed demo_final ! 0 \<noteq> 10 \<and>
   aero_torque demo_final ! 0 = 1000 \<and> gen_torque demo_final ! 0 = 1"
  using demo_run pi_less_4 by (simp add: demo_final_def)

subsection \<open>C7: the lengths of the series\<close>

text \<open>
  Claim C7: in a completed run, each of the six saved series (blade pitch, rotor speed,
  generator speed, aerodynamic torque, generator torque, generator power) is as long as
  the time array.
\<close>

theorem series_lengths:
  assumes "sim_ws_series self c0 t_array ws_array rotor_rpm_init init_pitch = Inr st"
  shows "length (bld_pitch st) = length t_array \<and> length (rot_speed st) = length t_array \<and>
         length (gen_speed st) = length t_array \<and> length (aero_torque st) = length t_array \<and>
         length (gen_torque st) = length t_array \<and> length (gen_power st) = length t_array"
  using run_series_len [OF assms] by (simp add: series_len_def)

text \<open>The lengths in the example run.\<close>

theorem series_lengths_witness:
  "sim_ws_series demo_sim () [0, 1] [10, 10] 10 0 = Inr demo_final \<and>
   length (bld_pitch demo_final) = length [0::real, 1] \<and>
   length (rot_speed demo_final) = length [0::real, 1] \<and>
   length (gen_speed demo_final) = length [0::real, 1] \<and>
   length (aero_torque demo_final) = length [0::real, 1] \<and>
   length (gen_torque demo_final) = length [0::real, 1] \<and>
   length (gen_power demo_final) = length [0::real, 1]"
  using series_lengths [OF demo_run] demo_run by simp

subsection \<open>C8: the generator power\<close>

text \<open>
  Claim C8: in a completed run, for every index \<open>i\<close> from 1 on, the generator power is
  \<open>gen_speed[i] * (pi / 30) * gen_torque[i] * gen_eff\<close>, with the factor \<open>pi / 30\<close> of
  line 111 although the speed is in rad/s.
\<close>

theorem gen_power_formula:
  assumes "sim_ws_series self c0 t_array ws_array rotor_rpm_init init_pitch = Inr st"
    and "1 \<le> i" and "i < length t_array"
  shows "gen_power st ! i = gen_speed st ! i * (pi / 30) * gen_torque st ! i * gen_eff self"
  using run_step_at [OF assms] by (simp add: step_at_def)

text \<open>The power at index 1 of the example run.\<close>

theorem gen_power_formula_witness:
  "sim_ws_series demo_sim () [0, 1] [10, 10] 10 0 = Inr demo_final \<and>
   (1::nat) \<le> 1 \<and> 1 < length [0::real, 1] \<and>
   gen_power demo_final ! 1 =
     gen_speed demo_final ! 1 * (pi / 30) * gen_torque demo_final ! 1 * gen_eff demo_sim"
  using gen_power_formula [OF demo_run, of 1] demo_run by simp

subsection \<open>C9: the efficiencies\<close>

text \<open>
  Claim C9: the simulator that \<open>Sim_init\<close> builds has the gearbox and generator
  efficiency 0.95 whatever the turbine; these are the factors in the rotor speed update
  and in the generator power of a completed run; and the run is the same when the
  efficiencies stored in the turbine are replaced by any other values.
\<close>

theorem efficiencies_fixed:
  assumes "sim_ws_series (Sim_init trb ctl) c0 t_array ws_array rotor_rpm_init init_pitch = Inr st"
    and "1 \<le> i" and "i < length t_array"
  shows "gb_eff (Sim_init trb ctl) = 0.95 \<and> gen_eff (Sim_init trb ctl) = 0.95 \<and>
         rot_speed st ! i =
           rot_speed st ! (i - 1) + ((t_array ! 1 - t_array ! 0) / J trb) *
             (aero_torque st ! i * 0.95 - Ng trb * gen_torque st ! (i - 1)) \<and>
         gen_power st ! i = gen_speed st ! i * pi / 30.0 * gen_torque st ! i * 0.95 \<and>
         sim_ws_series (Sim_init (trb\<lparr>GBoxEff := a, GenEff := b\<rparr>) ctl) c0 t_array ws_array
           rotor_rpm_init init_pitch = Inr st"
proof -
  have "step_at (Sim_init trb ctl) (t_array ! 1 - t_array ! 0) ws_array
          (use_interpolated_of (Sim_init trb ctl) c0 t_array ws_array rotor_rpm_init init_pitch)
          i (t_array ! i) st"
    using assms by (rule run_step_at)
  then have "rot_speed st ! i =
           rot_speed st ! (i - 1) + ((t_array ! 1 - t_array ! 0) / J trb) *
             (aero_torque st ! i * 0.95 - Ng trb * gen_torque st ! (i - 1))"
    "gen_power st ! i = gen_speed st ! i * pi / 30.0 * gen_torque st ! i * 0.95"
    by (simp_all add: step_at_def Sim_init_def)
  moreover have "gb_eff (Sim_init trb ctl) = 0.95" "gen_eff (Sim_init trb ctl) = 0.95"
    by (simp_all add: Sim_init_def)
  moreover have "sim_ws_series (Sim_init (trb\<lparr>GBoxEff := a, GenEff := b\<rparr>) ctl) c0 t_array
      ws_array rotor_rpm_init init_pitch = Inr st"
    using assms(1) by (simp only: sim_ws_series_turbine_efficiencies)
  ultimately show ?thesis by blast
qed

text \<open>The example run, and the same run with other efficiencies in the turbine.\<close>

theorem efficiencies_fixed_witness:
  "sim_ws_series (Sim_init demo_turbine demo_controller) () [0, 1] [10, 10] 10 0 = Inr demo_final \<and>
   (1::nat) \<le> 1 \<and> 1 < length [0::real, 1] \<and>
   gb_eff (Sim_init demo_turbine demo_controller) = 0.95 \<and>
   gen_eff (Sim_init demo_turbine demo_controller) = 0.95 \<and>
   rot_speed demo_final ! 1 =
     rot_speed demo_final ! (1 - 1) + (([0, 1] ! 1 - [0, 1] ! 0) / J demo_turbine) *
       (aero_torque demo_final ! 1 * 0.95 - Ng demo_turbine * gen_torque demo_final ! (1 - 1)) \<and>
   gen_power demo_final ! 1 =
     gen_speed demo_final ! 1 * pi / 30.0 * gen_torque demo_final ! 1 * 0.95 \<and>
   sim_ws_series (Sim_init (demo_turbine\<lparr>GBoxEff := 0.5, GenEff := 0.25\<rparr>) demo_controller) ()
     [0, 1] [10, 10] 10 0 = Inr demo_final"
proof -
  have r: "sim_ws_series (Sim_init demo_turbine demo_controller) () [0, 1] [10, 10] 10 0
           = Inr demo_final"
    using demo_run by (simp add: demo_sim_def)
  have l: "(1::nat) \<le> 1" "1 < length [0::real, 1]" by simp_all
  from efficiencies_fixed [OF r l, where a = "0.5" and b = "0.25"] r l show ?thesis by blast
qed

subsection \<open>C10: the initial torque series\<close>

text \<open>
  Claim C10: the arrays declared before the loop hold 1000 at every index of the
  aerodynamic torque and 1 at every index of the generator torque, whatever the inputs;
  and in a completed run the update of the rotor speed at index 1 uses 1 as the previous
  generator torque.
\<close>

theorem torque_series_initial_values:
  assumes "sim_ws_series self c0 t_array ws_array rotor_rpm_init init_pitch = Inr st"
  shows "aero_torque (declare_arrays self c0 t_array rotor_rpm_init init_pitch)
           = replicate (length t_array) 1000 \<and>
         gen_torque (declare_arrays self c0 t_array rotor_rpm_init init_pitch)
           = replicate (length t_array) 1 \<and>
         rot_speed st ! 1 =
           rot_speed st ! 0 + ((t_array ! 1 - t_array ! 0) / J (turbine self)) *
             (aero_torque st ! 1 * gb_eff self - Ng (turbine self) * 1)"
proof -
  have a: "aero_torque (declare_arrays self c0 t_array rotor_rpm_init init_pitch)
           = replicate (length t_array) 1000"
    "gen_torque (declare_arrays self c0 t_array rotor_rpm_init init_pitch)
           = replicate (length t_array) 1"
    by (simp_all add: declare_arrays_def ones_like_times_def map_replicate_const)
  from assms have "1 < length t_array"
    using sim_ws_series_Inr_length by fastforce
  with assms have "step_at self (t_array ! 1 - t_array ! 0) ws_array
          (use_interpolated_of self c0 t_array ws_array rotor_rpm_init init_pitch)
          1 (t_array ! 1) st"
    by (intro run_step_at) simp_all
  then have "rot_speed st ! 1 =
           rot_speed st ! 0 + ((t_array ! 1 - t_array ! 0) / J (turbine self)) *
             (aero_torque st ! 1 * gb_eff self - Ng (turbine self) * gen_torque st ! 0)"
    by (simp add: step_at_def)
  moreover have "gen_torque st ! 0 = 1"
    using run_index0(5) [OF assms] sim_ws_series_Inr_nonempty [OF assms]
    by (simp add: declare_arrays_nth)
  ultimately show ?thesis using a by simp
qed

text \<open>The example run.\<close>

theorem torque_series_initial_values_witness:
  "sim_ws_series demo_sim () [0, 1] [10, 10] 10 0 = Inr demo_final \<and>
   aero_torque (declare_arrays demo_sim () [0, 1] 10 0) = replicate (length [0::real, 1]) 1000 \<and>
   gen_torque (declare_arrays demo_sim () [0, 1] 10 0) = replicate (length [0::real, 1]) 1 \<and>
   rot_speed demo_final ! 1 =
     rot_speed demo_final ! 0 + (([0, 1] ! 1 - [0, 1] ! 0) / J (turbine demo_sim)) *
       (aero_torque demo_final ! 1 * gb_eff demo_sim - Ng (turbine demo_sim) * 1)"
  using torque_series_initial_values [OF demo_run] demo_run by simp

end
